theory Spec2Isabelle
  imports Main
begin

section \<open>Strings\<close>

text \<open>
  Python strings are modelled as \<^typ>\<open>string\<close>, a list of characters read as the code
  points below 256. On these, \<^verbatim>\<open>str.isspace\<close> holds for 9..13, 28..32, 133 and 160, and
  \<^verbatim>\<open>str.lower\<close> adds 32 to the capital letters A..Z and to the capital letters of
  Latin-1 (192..214 and 216..222).
\<close>

definition is_space :: "char \<Rightarrow> bool" where
  "is_space c =
     (let n = (of_char c :: nat)
      in (9 \<le> n \<and> n \<le> 13) \<or> (28 \<le> n \<and> n \<le> 32) \<or> n = 133 \<or> n = 160)"

definition lower_char :: "char \<Rightarrow> char" where
  "lower_char c =
     (let n = (of_char c :: nat)
      in if (65 \<le> n \<and> n \<le> 90) \<or> (192 \<le> n \<and> n \<le> 214) \<or> (216 \<le> n \<and> n \<le> 222)
         then char_of (n + 32) else c)"

definition lower :: "string \<Rightarrow> string" where
  "lower s = map lower_char s"

text \<open>
  \<^verbatim>\<open>s.split()\<close> without a separator: the maximal runs of characters that are not
  white space, in order. \<open>cur\<close> is the run being read.
\<close>

fun split_from :: "string \<Rightarrow> string \<Rightarrow> string list" where
  "split_from cur [] = (if cur = [] then [] else [cur])"
| "split_from cur (c # cs) =
     (if is_space c
      then (if cur = [] then split_from [] cs else cur # split_from [] cs)
      else split_from (cur @ [c]) cs)"

definition split :: "string \<Rightarrow> string list" where
  "split s = split_from [] s"

definition strip :: "string \<Rightarrow> string" where
  "strip s = rev (dropWhile is_space (rev (dropWhile is_space s)))"

definition startswith :: "string \<Rightarrow> string \<Rightarrow> bool" where
  "startswith s p = (take (length p) s = p)"

definition endswith :: "string \<Rightarrow> string \<Rightarrow> bool" where
  "endswith s p = (length p \<le> length s \<and> drop (length s - length p) s = p)"

section \<open>The safety gate: \<^verbatim>\<open>SQLExecutor.validate_sql\<close>\<close>

definition dangerous_keywords :: "string list" where
  "dangerous_keywords =
     [''drop'', ''delete'', ''truncate'', ''update'', ''insert'', ''alter'', ''create'',
      ''grant'', ''revoke'', ''commit'', ''rollback'', ''begin'', ''end'', ''vacuum'']"

text \<open>
  The loop over the keywords returns at the first keyword that is one of the tokens of
  the lower-cased query; the result is that keyword, or \<open>None\<close> when the loop ends.
\<close>

fun first_dangerous :: "string list \<Rightarrow> string \<Rightarrow> string option" where
  "first_dangerous [] sql_lower = None"
| "first_dangerous (keyword # rest) sql_lower =
     (if keyword \<in> set (split sql_lower) then Some keyword
      else first_dangerous rest sql_lower)"

text \<open>The verdict with the reason the source records on its tracing span.\<close>

datatype verdict = Safe | Dangerous_keyword string | Not_select

definition validate_reason :: "string \<Rightarrow> verdict" where
  "validate_reason sql_query =
     (let sql_lower = lower sql_query
      in case first_dangerous dangerous_keywords sql_lower of
           Some keyword \<Rightarrow> Dangerous_keyword keyword
         | None \<Rightarrow>
             if \<not> startswith (strip sql_lower) ''select'' then Not_select else Safe)"

definition validate_sql :: "string \<Rightarrow> bool" where
  "validate_sql sql_query = (validate_reason sql_query = Safe)"

section \<open>Python values\<close>

text \<open>
  The values that travel in the dictionaries of the program. A dictionary is an
  association list in insertion order with one entry per key.
\<close>

datatype pyval =
    PNone
  | PBool bool
  | PInt int
  | PStr string
  | PList "pyval list"
  | PDict "(string \<times> pyval) list"

type_synonym pydict = "(string \<times> pyval) list"

text \<open>An exception is represented by its text \<^verbatim>\<open>str(e)\<close>, which is all the program reads of it.\<close>

type_synonym exn = string

text \<open>\<^verbatim>\<open>d[k]\<close>: a missing key raises \<^verbatim>\<open>KeyError(k)\<close>, whose text is the key in quotes.\<close>

definition dict_getitem :: "pydict \<Rightarrow> string \<Rightarrow> exn + pyval" where
  "dict_getitem d k =
     (case map_of d k of
        None \<Rightarrow> Inl ([CHR 0x27] @ k @ [CHR 0x27])
      | Some v \<Rightarrow> Inr v)"

text \<open>\<^verbatim>\<open>d.get(k, default)\<close>.\<close>

definition dict_get :: "pydict \<Rightarrow> string \<Rightarrow> pyval \<Rightarrow> pyval" where
  "dict_get d k dflt = (case map_of d k of None \<Rightarrow> dflt | Some v \<Rightarrow> v)"

text \<open>\<^verbatim>\<open>d[k] = v\<close>: an existing key keeps its place, a new key goes last.\<close>

fun dict_set :: "string \<Rightarrow> pyval \<Rightarrow> pydict \<Rightarrow> pydict" where
  "dict_set k v [] = [(k, v)]"
| "dict_set k v ((k', v') # d) =
     (if k' = k then (k, v) # d else (k', v') # dict_set k v d)"

text \<open>\<^verbatim>\<open>dict(pairs)\<close>.\<close>

definition dict_of :: "(string \<times> pyval) list \<Rightarrow> pydict" where
  "dict_of kvs = foldl (\<lambda>d (k, v). dict_set k v d) [] kvs"

text \<open>Truth value of a Python value in a condition.\<close>

fun truthy :: "pyval \<Rightarrow> bool" where
  "truthy PNone = False"
| "truthy (PBool b) = b"
| "truthy (PInt i) = (i \<noteq> 0)"
| "truthy (PStr s) = (s \<noteq> [])"
| "truthy (PList xs) = (xs \<noteq> [])"
| "truthy (PDict d) = (d \<noteq> [])"

section \<open>The context object (\<^verbatim>\<open>agents/mcp.py\<close>)\<close>

text \<open>An entry of \<^verbatim>\<open>Context.errors\<close>: the dictionary with the keys agent, message and type.\<close>

record error_entry =
  agent :: string
  message :: string
  error_type :: string

record Context =
  user_id :: string
  question :: string
  sql_query :: string
  is_query_validated :: bool
  query_results :: pydict
  response :: string
  conversation_history :: "pyval list"
  errors :: "error_entry list"
  metadata :: pydict

text \<open>\<^verbatim>\<open>Context(user_id=user_id, question=question)\<close>: every other field has its default.\<close>

definition new_context :: "string \<Rightarrow> string \<Rightarrow> Context" where
  "new_context uid q =
     \<lparr>user_id = uid, question = q, sql_query = [], is_query_validated = False,
      query_results = [], response = [], conversation_history = [], errors = [],
      metadata = []\<rparr>"

definition add_error :: "string \<Rightarrow> string \<Rightarrow> string \<Rightarrow> Context \<Rightarrow> Context" where
  "add_error agent_name error_message etype c =
     c\<lparr>errors := errors c @
          [\<lparr>agent = agent_name, message = error_message, error_type = etype\<rparr>]\<rparr>"

definition has_errors :: "Context \<Rightarrow> bool" where
  "has_errors c = (length (errors c) > 0)"

definition get_last_error :: "Context \<Rightarrow> error_entry option" where
  "get_last_error c = (if errors c \<noteq> [] then Some (last (errors c)) else None)"

definition update_metadata :: "string \<Rightarrow> pyval \<Rightarrow> Context \<Rightarrow> Context" where
  "update_metadata key v c = c\<lparr>metadata := dict_set key v (metadata c)\<rparr>"

section \<open>The world outside the program\<close>

text \<open>
  What a file of the memory directory holds when it is read: nothing, a stored memory
  document, text that \<^verbatim>\<open>json.load\<close> rejects with \<^verbatim>\<open>JSONDecodeError\<close>, or a file
  whose opening or reading raises another exception. A stored document has the shape
  that \<^verbatim>\<open>create_empty_memory\<close> and \<^verbatim>\<open>add_interaction\<close> write.
\<close>

record memory =
  conversations :: "pyval list"
  preferences :: pydict
  last_updated :: string

datatype file_state = Missing | Stored memory | Corrupt | Unreadable exn

text \<open>
  What the database does with a statement: the column names and the fetched rows, an
  \<^verbatim>\<open>SQLAlchemyError\<close>, or any other exception raised inside the \<^verbatim>\<open>try\<close> block.
\<close>

datatype db_outcome =
    Fetched "string list" "pyval list list"
  | SQLAlchemyError exn
  | OtherError exn

text \<open>
  The collaborators and the state the program reaches only through them:
  \<^item> \<open>files\<close>, \<open>writable\<close>: the file system, by path; opening an unwritable path for
    writing raises and changes nothing;
  \<^item> \<open>now\<close>: the text of \<^verbatim>\<open>datetime.now().isoformat()\<close>;
  \<^item> \<open>generator\<close>: \<^verbatim>\<open>SQLGenerator.generate_sql(question)\<close>, the retrieval and
    language-model chain, which returns the query or raises;
  \<^item> \<open>formatter\<close>: \<^verbatim>\<open>ResponseFormatter.format_response(question, sql_query, results)\<close>,
    the language-model chain with its fallback, which returns the text or raises;
  \<^item> \<open>py_repr\<close>: the text Python's string formatting gives a value that is not a
    string;
  \<^item> \<open>session_error\<close>: the exception, if any, raised when a database session is
    obtained; \<open>db_execute\<close>: the database; \<open>sessions_opened\<close>, \<open>sessions_closed\<close>
    and \<open>executed\<close> record the sessions obtained and closed and the statements sent.
\<close>

record world =
  files :: "string \<Rightarrow> file_state"
  writable :: "string \<Rightarrow> bool"
  now :: string
  generator :: "string \<Rightarrow> exn + string"
  formatter :: "string \<Rightarrow> string \<Rightarrow> pydict \<Rightarrow> exn + string"
  py_repr :: "pyval \<Rightarrow> string"
  session_error :: "exn option"
  db_execute :: "string \<Rightarrow> db_outcome"
  sessions_opened :: nat
  sessions_closed :: nat
  executed :: "string list"

text \<open>\<^verbatim>\<open>f"{v}"\<close>: a string is inserted as it is.\<close>

definition py_str :: "world \<Rightarrow> pyval \<Rightarrow> string" where
  "py_str w v = (case v of PStr s \<Rightarrow> s | _ \<Rightarrow> py_repr w v)"

section \<open>The history store (\<^verbatim>\<open>agents/memory_manager.py\<close>)\<close>

text \<open>\<^verbatim>\<open>os.path.join(a, b)\<close> on a POSIX system.\<close>

definition path_join :: "string \<Rightarrow> string \<Rightarrow> string" where
  "path_join a b =
     (if startswith b ''/'' then b
      else if a = [] \<or> endswith a ''/'' then a @ b
      else a @ ''/'' @ b)"

definition get_user_memory_path :: "string \<Rightarrow> string \<Rightarrow> string" where
  "get_user_memory_path memory_dir uid = path_join memory_dir (uid @ ''.json'')"

definition create_empty_memory :: "world \<Rightarrow> memory" where
  "create_empty_memory w = \<lparr>conversations = [], preferences = [], last_updated = now w\<rparr>"

definition load_memory :: "world \<Rightarrow> string \<Rightarrow> string \<Rightarrow> exn + memory" where
  "load_memory w memory_dir uid =
     (case files w (get_user_memory_path memory_dir uid) of
        Missing \<Rightarrow> Inr (create_empty_memory w)
      | Stored m \<Rightarrow> Inr m
      | Corrupt \<Rightarrow> Inr (create_empty_memory w)
      | Unreadable e \<Rightarrow> Inl e)"

text \<open>\<^verbatim>\<open>MemoryManager.save_memory\<close>: an exception while writing is logged and dropped.\<close>

definition memory_save_memory :: "world \<Rightarrow> string \<Rightarrow> string \<Rightarrow> memory \<Rightarrow> world" where
  "memory_save_memory w memory_dir uid m =
     (let memory_path = get_user_memory_path memory_dir uid
      in if writable w memory_path
         then w\<lparr>files := (files w)(memory_path := Stored m)\<rparr>
         else w)"

text \<open>
  \<^verbatim>\<open>add_interaction\<close> returns the world after the write, or the exception raised
  before it: by \<^verbatim>\<open>load_memory\<close>, or by \<^verbatim>\<open>results["success"]\<close> and
  \<^verbatim>\<open>results["row_count"]\<close> while the interaction is built.
\<close>

definition add_interaction ::
  "world \<Rightarrow> string \<Rightarrow> string \<Rightarrow> string \<Rightarrow> string \<Rightarrow> pydict \<Rightarrow> string \<Rightarrow> exn + world" where
  "add_interaction w memory_dir uid q sql results resp =
     (case load_memory w memory_dir uid of
        Inl e \<Rightarrow> Inl e
      | Inr m \<Rightarrow>
          (case dict_getitem results ''success'' of
             Inl e \<Rightarrow> Inl e
           | Inr success \<Rightarrow>
               (case dict_getitem results ''row_count'' of
                  Inl e \<Rightarrow> Inl e
                | Inr row_count \<Rightarrow>
                    (let interaction = PDict
                           [(''timestamp'', PStr (now w)),
                            (''question'', PStr q),
                            (''sql_query'', PStr sql),
                            (''results_summary'', PDict
                               [(''success'', success),
                                (''row_count'', row_count),
                                (''error'', dict_get results ''error'' PNone)]),
                            (''response'', PStr resp)];
                         m' = m\<lparr>conversations := conversations m @ [interaction],
                                 last_updated := now w\<rparr>
                     in Inr (memory_save_memory w memory_dir uid m')))))"

text \<open>\<^verbatim>\<open>xs[-limit:]\<close> for a limit that is not negative.\<close>

definition last_items :: "nat \<Rightarrow> 'a list \<Rightarrow> 'a list" where
  "last_items limit xs = (if limit = 0 then xs else drop (length xs - limit) xs)"

definition get_recent_interactions ::
  "world \<Rightarrow> string \<Rightarrow> string \<Rightarrow> nat \<Rightarrow> exn + pyval list" where
  "get_recent_interactions w memory_dir uid limit =
     (case load_memory w memory_dir uid of
        Inl e \<Rightarrow> Inl e
      | Inr m \<Rightarrow>
          Inr (if conversations m \<noteq> [] then last_items limit (conversations m) else []))"

section \<open>The executor (\<^verbatim>\<open>SQLExecutor.execute_sql\<close>)\<close>

text \<open>The dictionary returned on each of the three failure paths.\<close>

definition failure_result :: "string \<Rightarrow> pydict" where
  "failure_result error_msg =
     [(''success'', PBool False), (''error'', PStr error_msg), (''data'', PNone),
      (''columns'', PNone), (''row_count'', PInt 0)]"

text \<open>
  \<^verbatim>\<open>pd.DataFrame(rows).empty\<close>: there is no row, or the rows have no column.
  \<^verbatim>\<open>to_dict(orient="records")\<close> gives one dictionary a row, pairing the column names
  with the values of the row.
\<close>

definition df_empty :: "pyval list list \<Rightarrow> bool" where
  "df_empty rows = list_all (\<lambda>r. r = []) rows"

definition to_records :: "string list \<Rightarrow> pyval list list \<Rightarrow> pyval list" where
  "to_records keys rows = map (\<lambda>r. PDict (dict_of (zip keys r))) rows"

text \<open>
  The result is the returned dictionary, or the exception that leaves the function when
  no session can be obtained. A session that was obtained is closed on every path.
\<close>

definition executor_execute_sql :: "world \<Rightarrow> string \<Rightarrow> (exn + pydict) \<times> world" where
  "executor_execute_sql w sql =
     (if \<not> validate_sql sql
      then (Inr (failure_result ''SQL query failed validation''), w)
      else
        (case session_error w of
           Some e \<Rightarrow> (Inl e, w)
         | None \<Rightarrow>
             (let w' = w\<lparr>sessions_opened := Suc (sessions_opened w),
                         executed := executed w @ [sql],
                         sessions_closed := Suc (sessions_closed w)\<rparr>
              in case db_execute w sql of
                   Fetched keys rows \<Rightarrow>
                     if df_empty rows
                     then (Inr [(''success'', PBool True), (''data'', PList []),
                                (''columns'', PList (map PStr keys)),
                                (''row_count'', PInt 0)], w')
                     else
                       (let records = to_records keys rows
                        in (Inr [(''success'', PBool True), (''data'', PList records),
                                 (''columns'', PList (map PStr keys)),
                                 (''row_count'', PInt (int (length records)))], w'))
                 | SQLAlchemyError e \<Rightarrow> (Inr (failure_result (''Database error: '' @ e)), w')
                 | OtherError e \<Rightarrow> (Inr (failure_result (''Unexpected error: '' @ e)), w'))))"

section \<open>The stages (\<^verbatim>\<open>flow.py\<close>)\<close>

text \<open>\<^verbatim>\<open>MemoryManager()\<close> is built with its default directory.\<close>

definition memory_dir :: string where
  "memory_dir = ''memory''"

definition load_context :: "world \<Rightarrow> Context \<Rightarrow> Context \<times> world" where
  "load_context w c =
     (case get_recent_interactions w memory_dir (user_id c) 5 of
        Inr recent_interactions \<Rightarrow>
          (update_metadata ''history_length'' (PInt (int (length recent_interactions)))
             (update_metadata ''context_loaded'' (PBool True)
                (c\<lparr>conversation_history := recent_interactions\<rparr>)), w)
      | Inl e \<Rightarrow> (add_error ''load_context'' (''Error loading context: '' @ e) ''general'' c, w))"

definition generate_sql :: "world \<Rightarrow> Context \<Rightarrow> Context \<times> world" where
  "generate_sql w c =
     (case generator w (question c) of
        Inr sql \<Rightarrow> (c\<lparr>sql_query := sql\<rparr>, w)
      | Inl e \<Rightarrow> (add_error ''generate_sql'' (''Error generating SQL: '' @ e) ''general'' c, w))"

definition execute_sql :: "world \<Rightarrow> Context \<Rightarrow> Context \<times> world" where
  "execute_sql w c =
     (case executor_execute_sql w (sql_query c) of
        (Inl e, w') \<Rightarrow>
          (add_error ''execute_sql'' (''Error executing SQL: '' @ e) ''general'' c, w')
      | (Inr results, w') \<Rightarrow>
          (let c1 = c\<lparr>query_results := results\<rparr>
           in case dict_getitem results ''success'' of
                Inl e \<Rightarrow>
                  (add_error ''execute_sql'' (''Error executing SQL: '' @ e) ''general'' c1, w')
              | Inr success \<Rightarrow>
                  (let c2 = c1\<lparr>is_query_validated := truthy success\<rparr>
                   in if truthy success then (c2, w')
                      else
                        (case dict_getitem results ''error'' of
                           Inl e \<Rightarrow>
                             (add_error ''execute_sql'' (''Error executing SQL: '' @ e)
                                ''general'' c2, w')
                         | Inr err \<Rightarrow>
                             (add_error ''execute_sql''
                                (''Query execution failed: '' @ py_str w err)
                                ''database_error'' c2, w')))))"

definition format_response :: "world \<Rightarrow> Context \<Rightarrow> Context \<times> world" where
  "format_response w c =
     (if has_errors c
      then
        (let error_msg = (case get_last_error c of
                            Some last_error \<Rightarrow> message last_error
                          | None \<Rightarrow> ''An unknown error occurred'')
         in (c\<lparr>response := ''I'm sorry, but I encountered an error: '' @ error_msg\<rparr>, w))
      else
        (case formatter w (question c) (sql_query c) (query_results c) of
           Inr r \<Rightarrow> (c\<lparr>response := r\<rparr>, w)
         | Inl e \<Rightarrow>
             ((add_error ''format_response'' (''Error formatting response: '' @ e) ''general'' c)
                \<lparr>response :=
                   ''I'm sorry, but I encountered an error while formatting the response.''\<rparr>,
              w)))"

definition save_memory :: "world \<Rightarrow> Context \<Rightarrow> Context \<times> world" where
  "save_memory w c =
     (case add_interaction w memory_dir (user_id c) (question c) (sql_query c)
             (query_results c) (response c) of
        Inr w' \<Rightarrow> (c, w')
      | Inl e \<Rightarrow> (add_error ''save_memory'' (''Error saving memory: '' @ e) ''general'' c, w))"

definition check_for_errors :: "Context \<Rightarrow> string" where
  "check_for_errors c = (if has_errors c then ''error'' else ''success'')"

section \<open>The graph (\<^verbatim>\<open>SQLAgentGraph.build_graph\<close>)\<close>

datatype node = Load_context | Generate_sql | Execute_sql | Format_response | Save_memory | END

text \<open>The five \<^verbatim>\<open>add_edge\<close> calls, in order.\<close>

definition edges :: "(node \<times> node) list" where
  "edges =
     [(Load_context, Generate_sql), (Generate_sql, Execute_sql),
      (Execute_sql, Format_response), (Format_response, Save_memory), (Save_memory, END)]"

text \<open>
  The two \<^verbatim>\<open>add_conditional_edges\<close> calls: the source node and the map from the label
  returned by \<^verbatim>\<open>check_for_errors\<close> to the target.
\<close>

definition conditional_edges :: "(node \<times> (string \<times> node) list) list" where
  "conditional_edges =
     [(Generate_sql, [(''error'', Format_response), (''success'', Execute_sql)]),
      (Execute_sql, [(''error'', Format_response), (''success'', Format_response)])]"

definition entry_point :: node where
  "entry_point = Load_context"

text \<open>Every edge of the graph: the plain ones and each target of a conditional one.\<close>

definition all_edges :: "(node \<times> node) list" where
  "all_edges = edges @ concat (map (\<lambda>(n, path_map). map (\<lambda>(l, t). (n, t)) path_map) conditional_edges)"

section \<open>The targets registered for a node\<close>

text \<open>
  What \<^verbatim>\<open>build_graph\<close> registers as the successors of a node for a given context: the
  targets of its plain edges, and the target that its conditional edges give for the
  label returned by \<^verbatim>\<open>check_for_errors\<close>. Both kinds are registered for
  \<open>Generate_sql\<close> and for \<open>Execute_sql\<close>; neither call of \<^verbatim>\<open>build_graph\<close> removes or
  replaces the other.
\<close>

definition plain_targets :: "node \<Rightarrow> node list" where
  "plain_targets n = map snd (filter (\<lambda>e. fst e = n) edges)"

definition conditional_target :: "Context \<Rightarrow> node \<Rightarrow> node option" where
  "conditional_target c n =
     (case map_of conditional_edges n of
        None \<Rightarrow> None
      | Some path_map \<Rightarrow> map_of path_map (check_for_errors c))"

definition registered_targets :: "Context \<Rightarrow> node \<Rightarrow> node list" where
  "registered_targets c n =
     plain_targets n @ (case conditional_target c n of None \<Rightarrow> [] | Some t \<Rightarrow> [t])"

text \<open>
  The place of a node in the order of the pipeline, counted back from \<open>END\<close>; an edge
  is backward when it does not lead to a smaller number.
\<close>

fun stages_left :: "node \<Rightarrow> nat" where
  "stages_left Load_context = 5"
| "stages_left Generate_sql = 4"
| "stages_left Execute_sql = 3"
| "stages_left Format_response = 2"
| "stages_left Save_memory = 1"
| "stages_left END = 0"

section \<open>Containment of a path in a directory\<close>

text \<open>
  What it means for a path to lie inside a directory, for paths read on a POSIX system
  without symbolic links: both are absolute or both are relative, and after
  normalisation (empty and \<open>.\<close> components dropped, \<open>..\<close> cancelling the component before
  it, as \<^verbatim>\<open>os.path.normpath\<close> does) the components of the directory are a proper
  prefix of those of the path, and none of the further components is \<open>..\<close>.
\<close>

fun split_sep :: "string \<Rightarrow> string \<Rightarrow> string list" where
  "split_sep cur [] = [cur]"
| "split_sep cur (c # cs) =
     (if c = CHR ''/'' then cur # split_sep [] cs else split_sep (cur @ [c]) cs)"

definition norm_step :: "bool \<Rightarrow> string list \<Rightarrow> string \<Rightarrow> string list" where
  "norm_step absolute new_comps part =
     (if part = [] \<or> part = ''.'' then new_comps
      else if part \<noteq> ''..'' \<or> (\<not> absolute \<and> new_comps = [])
              \<or> (new_comps \<noteq> [] \<and> last new_comps = ''..'')
      then new_comps @ [part]
      else butlast new_comps)"

definition norm_comps :: "string \<Rightarrow> string list" where
  "norm_comps p = foldl (norm_step (startswith p ''/'')) [] (split_sep [] p)"

definition lies_inside :: "string \<Rightarrow> string \<Rightarrow> bool" where
  "lies_inside dir p =
     (let d = norm_comps dir; q = norm_comps p
      in startswith dir ''/'' = startswith p ''/''
         \<and> length d < length q \<and> take (length d) q = d
         \<and> ''..'' \<notin> set (drop (length d) q))"

section \<open>Example worlds\<close>

text \<open>
  A world in which every collaborator succeeds: no history file yet, a generator that
  answers with a query, a database that returns one row.
\<close>

definition quiet_world :: world where
  "quiet_world =
     \<lparr>files = (\<lambda>p. Missing), writable = (\<lambda>p. True), now = ''2024-01-01T00:00:00'',
      generator = (\<lambda>q. Inr ''SELECT nome FROM clientes''),
      formatter = (\<lambda>q sql r. Inr ''Joao Silva''),
      py_repr = (\<lambda>v. ''None''), session_error = None,
      db_execute = (\<lambda>sql. Fetched [''nome''] [[PStr ''Joao Silva'']]),
      sessions_opened = 0, sessions_closed = 0, executed = []\<rparr>"

text \<open>The same world with a generator that raises.\<close>

definition failing_generator_world :: world where
  "failing_generator_world = quiet_world\<lparr>generator := (\<lambda>q. Inl ''Connection error.'')\<rparr>"

text \<open>The same world with history files that cannot be read.\<close>

definition unreadable_history_world :: world where
  "unreadable_history_world = quiet_world\<lparr>files := (\<lambda>p. Unreadable ''Permission denied'')\<rparr>"

section \<open>Properties of the safety gate\<close>

lemma is_space_lower_char: "is_space (lower_char c) = is_space c"
  by (auto simp: is_space_def lower_char_def Let_def)

lemma split_from_no_space:
  "\<forall>c \<in> set w. \<not> is_space c \<Longrightarrow> split_from cur (w @ rest) = split_from (cur @ w) rest"
  by (induction w arbitrary: cur) auto

lemma split_from_after_space:
  "xs \<noteq> [] \<Longrightarrow> is_space (last xs) \<Longrightarrow>
   split_from cur (xs @ ys) = split_from cur xs @ split_from [] ys"
  by (induction xs arbitrary: cur) (auto split: if_splits)

lemma split_from_word_end:
  "w \<noteq> [] \<Longrightarrow> post = [] \<or> is_space (hd post) \<Longrightarrow> w \<in> set (split_from w post)"
  by (cases post) auto

lemma word_in_split:
  assumes w: "w \<noteq> []" "\<forall>c \<in> set w. \<not> is_space c"
    and pre: "pre = [] \<or> is_space (last pre)"
    and post: "post = [] \<or> is_space (hd post)"
  shows "w \<in> set (split (pre @ w @ post))"
proof -
  have tail: "w \<in> set (split_from [] (w @ post))"
    using split_from_no_space [OF w(2), of "[]" post] split_from_word_end [OF w(1) post]
    by simp
  show ?thesis
  proof (cases "pre = []")
    case True
    with tail show ?thesis by (simp add: split_def)
  next
    case False
    with pre have "is_space (last pre)" by simp
    from split_from_after_space [OF False this, of "[]" "w @ post"] tail
    show ?thesis by (simp add: split_def)
  qed
qed

lemma first_dangerous_None:
  "first_dangerous ks s = None \<longleftrightarrow> (\<forall>k \<in> set ks. k \<notin> set (split s))"
  by (induction ks) auto

lemma keyword_shape:
  "k \<in> set dangerous_keywords \<Longrightarrow> k \<noteq> [] \<and> (\<forall>c \<in> set k. \<not> is_space c)"
  by (auto simp: dangerous_keywords_def is_space_def)

lemma lower_last: "pre \<noteq> [] \<Longrightarrow> last (lower pre) = lower_char (last pre)"
  by (simp add: lower_def last_map)

lemma lower_hd: "post \<noteq> [] \<Longrightarrow> hd (lower post) = lower_char (hd post)"
  by (simp add: lower_def hd_map)

text \<open>
  C2. Allowlist prefix: a query whose lower-cased, trimmed text does not start with
  \<open>select\<close> is rejected by \<open>validate_sql\<close>, whatever its tokens are; nothing is
  assumed about the denylist.
\<close>

theorem not_select_rejected:
  "\<not> startswith (strip (lower q)) ''select'' \<Longrightarrow> validate_sql q = False"
  by (simp add: validate_sql_def validate_reason_def Let_def split: option.splits)

theorem not_select_rejected_witness:
  "\<not> startswith (strip (lower ''drop table x'')) ''select''
   \<and> \<not> startswith (strip (lower ''  WITH t AS (SELECT 1) SELECT 2'')) ''select''
   \<and> validate_sql ''drop table x'' = False
   \<and> validate_sql ''  WITH t AS (SELECT 1) SELECT 2'' = False"
proof -
  have a: "\<not> startswith (strip (lower ''drop table x'')) ''select''"
    by code_simp
  have b: "\<not> startswith (strip (lower ''  WITH t AS (SELECT 1) SELECT 2'')) ''select''"
    by code_simp
  show ?thesis
    using a b not_select_rejected [OF a] not_select_rejected [OF b] by simp
qed

text \<open>
  C3. Denylist: a query that contains, in any letter case, a keyword of the denylist as
  a whole word (the word \<open>w\<close> stands between white space or the ends of the query) is
  rejected by \<open>validate_sql\<close>, also when it starts with \<open>select\<close>.
\<close>

theorem denylist_rejected:
  assumes "q = pre @ w @ post"
    and "lower w \<in> set dangerous_keywords"
    and "pre = [] \<or> is_space (last pre)"
    and "post = [] \<or> is_space (hd post)"
  shows "validate_sql q = False"
proof -
  let ?k = "lower w"
  have shape: "?k \<noteq> []" "\<forall>c \<in> set ?k. \<not> is_space c"
    using keyword_shape [OF assms(2)] by simp_all
  have pre: "lower pre = [] \<or> is_space (last (lower pre))"
    using assms(3) by (cases "pre = []") (simp_all add: lower_last is_space_lower_char, simp add: lower_def)
  have post: "lower post = [] \<or> is_space (hd (lower post))"
    using assms(4) by (cases "post = []") (simp_all add: lower_hd is_space_lower_char, simp add: lower_def)
  have "lower q = lower pre @ ?k @ lower post"
    using assms(1) by (simp add: lower_def)
  with word_in_split [OF shape pre post] have "?k \<in> set (split (lower q))"
    by simp
  with assms(2) have "first_dangerous dangerous_keywords (lower q) \<noteq> None"
    by (auto simp: first_dangerous_None)
  then show ?thesis
    by (auto simp: validate_sql_def validate_reason_def Let_def split: option.splits)
qed

theorem denylist_rejected_witness:
  "lower ''DROP'' \<in> set dangerous_keywords
   \<and> is_space (last ''select 1; '') \<and> is_space (hd '' table x'')
   \<and> validate_sql ''select 1; DROP table x'' = False"
proof -
  have k: "lower ''DROP'' \<in> set dangerous_keywords"
    by code_simp
  have a: "is_space (last ''select 1; '')" by (simp add: is_space_def)
  have b: "is_space (hd '' table x'')" by (simp add: is_space_def)
  have "validate_sql (''select 1; '' @ ''DROP'' @ '' table x'') = False"
    using denylist_rejected [OF refl k, of "''select 1; ''" "'' table x''"] a b by blast
  with k a b show ?thesis by simp
qed

section \<open>Properties of the executor\<close>



text \<open>
  C5. Validation failure is atomic: for a query that \<open>validate_sql\<close> rejects, the
  executor returns the failure dictionary with the error text
  \<open>SQL query failed validation\<close>, no data, no columns and a row count of 0, and leaves
  the world as it was: no session is obtained and nothing is sent to the database.
\<close>

theorem validation_failure_atomic:
  "\<not> validate_sql q \<Longrightarrow>
   executor_execute_sql w q =
     (Inr [(''success'', PBool False), (''error'', PStr ''SQL query failed validation''),
           (''data'', PNone), (''columns'', PNone), (''row_count'', PInt 0)], w)"
  by (simp add: executor_execute_sql_def failure_result_def)

theorem validation_failure_atomic_witness:
  "\<not> validate_sql ''delete from clientes''
   \<and> executor_execute_sql quiet_world ''delete from clientes'' =
     (Inr [(''success'', PBool False), (''error'', PStr ''SQL query failed validation''),
           (''data'', PNone), (''columns'', PNone), (''row_count'', PInt 0)], quiet_world)"
proof -
  have h: "\<not> validate_sql ''delete from clientes''" by code_simp
  from validation_failure_atomic [OF h, of quiet_world] h show ?thesis by simp
qed

text \<open>
  C6. Shape of the result: every dictionary the executor returns has \<open>success\<close> false
  or true; when it is false, \<open>data\<close> and \<open>columns\<close> are \<open>None\<close> and \<open>row_count\<close> is 0;
  when it is true, \<open>data\<close> is a list and \<open>row_count\<close> is its length.
\<close>

theorem result_shape:
  assumes "executor_execute_sql w q = (Inr r, w')"
  shows "(map_of r ''success'' = Some (PBool False) \<or> map_of r ''success'' = Some (PBool True))
    \<and> (map_of r ''success'' = Some (PBool False) \<longrightarrow>
         map_of r ''data'' = Some PNone \<and> map_of r ''columns'' = Some PNone
         \<and> map_of r ''row_count'' = Some (PInt 0))
    \<and> (map_of r ''success'' = Some (PBool True) \<longrightarrow>
         (\<exists>rows. map_of r ''data'' = Some (PList rows)
                 \<and> map_of r ''row_count'' = Some (PInt (int (length rows)))))"
  using assms
  by (auto simp: executor_execute_sql_def failure_result_def Let_def
           split: if_splits option.splits db_outcome.splits)


lemma validate_select_1: "validate_sql ''select 1''"
  by code_simp

theorem result_shape_witness:
  "executor_execute_sql quiet_world ''select 1'' =
     (Inr [(''success'', PBool True), (''data'', PList [PDict [(''nome'', PStr ''Joao Silva'')]]),
           (''columns'', PList [PStr ''nome'']), (''row_count'', PInt 1)],
      quiet_world\<lparr>sessions_opened := 1, executed := [''select 1''], sessions_closed := 1\<rparr>)
   \<and> (\<exists>rows. map_of [(''success'', PBool True),
                      (''data'', PList [PDict [(''nome'', PStr ''Joao Silva'')]]),
                      (''columns'', PList [PStr ''nome'']), (''row_count'', PInt 1)] ''data''
               = Some (PList rows)
             \<and> (1::int) = int (length rows))
   \<and> executor_execute_sql (quiet_world\<lparr>db_execute := (\<lambda>sql. Fetched [''nome''] [])\<rparr>)
         ''select 1'' =
     (Inr [(''success'', PBool True), (''data'', PList []),
           (''columns'', PList [PStr ''nome'']), (''row_count'', PInt 0)],
      quiet_world\<lparr>db_execute := (\<lambda>sql. Fetched [''nome''] []), sessions_opened := 1,
                    executed := [''select 1''], sessions_closed := 1\<rparr>)
   \<and> (\<exists>rows. map_of [(''success'', PBool True), (''data'', PList []),
                      (''columns'', PList [PStr ''nome'']), (''row_count'', PInt 0)] ''data''
               = Some (PList rows)
             \<and> (0::int) = int (length rows))"
proof -
  have h: "executor_execute_sql quiet_world ''select 1'' =
     (Inr [(''success'', PBool True), (''data'', PList [PDict [(''nome'', PStr ''Joao Silva'')]]),
           (''columns'', PList [PStr ''nome'']), (''row_count'', PInt 1)],
      quiet_world\<lparr>sessions_opened := 1, executed := [''select 1''], sessions_closed := 1\<rparr>)"
    by (simp add: executor_execute_sql_def validate_select_1 quiet_world_def df_empty_def
          to_records_def dict_of_def)
  have z: "executor_execute_sql (quiet_world\<lparr>db_execute := (\<lambda>sql. Fetched [''nome''] [])\<rparr>)
         ''select 1'' =
     (Inr [(''success'', PBool True), (''data'', PList []),
           (''columns'', PList [PStr ''nome'']), (''row_count'', PInt 0)],
      quiet_world\<lparr>db_execute := (\<lambda>sql. Fetched [''nome''] []), sessions_opened := 1,
                    executed := [''select 1''], sessions_closed := 1\<rparr>)"
    by (simp add: executor_execute_sql_def validate_select_1 quiet_world_def df_empty_def)
  from result_shape [OF h] result_shape [OF z] h z show ?thesis by simp
qed

section \<open>Properties of the history store\<close>

lemma split_sep_no_sep: "CHR ''/'' \<notin> set f \<Longrightarrow> split_sep cur f = [cur @ f]"
  by (induction f arbitrary: cur) auto

lemma split_sep_at_sep:
  "split_sep cur (xs @ CHR ''/'' # ys) = split_sep cur xs @ split_sep [] ys"
proof (induction xs arbitrary: cur)
  case Nil
  show ?case by simp
next
  case (Cons x xs)
  then show ?case by (cases "x = CHR ''/''") simp_all
qed

lemma norm_step_file:
  "f \<noteq> [] \<Longrightarrow> f \<noteq> ''.'' \<Longrightarrow> f \<noteq> ''..'' \<Longrightarrow> norm_step a acc f = acc @ [f]"
  by (simp add: norm_step_def)

lemma norm_step_empty: "norm_step a acc [] = acc"
  by (simp add: norm_step_def)

lemma json_name:
  "uid @ ''.json'' \<noteq> [] \<and> uid @ ''.json'' \<noteq> ''.'' \<and> uid @ ''.json'' \<noteq> ''..''"
proof -
  have "length (uid @ ''.json'') \<noteq> length ''.''" "length (uid @ ''.json'') \<noteq> length ''..''"
    by simp_all
  then show ?thesis by fastforce
qed

lemma json_no_sep: "CHR ''/'' \<notin> set uid \<Longrightarrow> CHR ''/'' \<notin> set (uid @ ''.json'')"
  by simp

lemma json_relative: "CHR ''/'' \<notin> set uid \<Longrightarrow> \<not> startswith (uid @ ''.json'') ''/''"
  by (cases uid) (auto simp: startswith_def)

lemma startswith_append: "d \<noteq> [] \<Longrightarrow> startswith (d @ x) ''/'' = startswith d ''/''"
  by (cases d) (auto simp: startswith_def)

lemma endswith_sep: "endswith d ''/'' \<longleftrightarrow> (\<exists>d0. d = d0 @ ''/'')"
proof
  assume "endswith d ''/''"
  then have "d \<noteq> []" "drop (length d - 1) d = ''/''" by (auto simp: endswith_def)
  then have "d = take (length d - 1) d @ ''/''" by (metis append_take_drop_id)
  then show "\<exists>d0. d = d0 @ ''/''" ..
next
  assume "\<exists>d0. d = d0 @ ''/''"
  then show "endswith d ''/''" by (auto simp: endswith_def)
qed

lemma norm_comps_child:
  assumes f: "CHR ''/'' \<notin> set f" "f \<noteq> []" "f \<noteq> ''.''" "f \<noteq> ''..''"
  shows "norm_comps (path_join d f) = norm_comps d @ [f]
         \<and> startswith (path_join d f) ''/'' = startswith d ''/''"
proof -
  have rel: "\<not> startswith f ''/''"
    using f by (cases f) (auto simp: startswith_def)
  consider (empty) "d = []" | (slash) d0 where "d = d0 @ ''/''"
    | (plain) "d \<noteq> []" "\<not> endswith d ''/''"
    using endswith_sep by blast
  then show ?thesis
  proof cases
    case empty
    with rel f show ?thesis
      by (simp add: path_join_def norm_comps_def split_sep_no_sep norm_step_file norm_step_empty
            startswith_def)
  next
    case slash
    then have j: "path_join d f = d0 @ CHR ''/'' # f"
      using rel by (simp add: path_join_def endswith_sep)
    have a: "startswith (d0 @ CHR ''/'' # f) ''/'' = startswith (d0 @ ''/'') ''/''"
      by (cases d0) (auto simp: startswith_def)
    show ?thesis
      unfolding j using slash f a
      by (simp add: norm_comps_def split_sep_at_sep split_sep_no_sep norm_step_file
            norm_step_empty del: split_sep.simps)
  next
    case plain
    then have j: "path_join d f = d @ CHR ''/'' # f"
      using rel by (simp add: path_join_def)
    show ?thesis
      unfolding j using plain f startswith_append [OF plain(1), of "CHR ''/'' # f"]
      by (simp add: norm_comps_def split_sep_at_sep split_sep_no_sep norm_step_file
            del: split_sep.simps)
  qed
qed

text \<open>
  C9, as amended. The history document of a user is the file at
  \<^verbatim>\<open>os.path.join(memory_dir, user_id + ".json")\<close>, a function of the user id; the path
  lies inside the memory directory whenever the user id contains no \<open>/\<close>.
\<close>

theorem memory_path_inside:
  assumes "CHR ''/'' \<notin> set uid"
  shows "get_user_memory_path dir uid =
           (if dir = [] \<or> endswith dir ''/'' then dir else dir @ ''/'') @ uid @ ''.json''
         \<and> lies_inside dir (get_user_memory_path dir uid)"
proof -
  let ?f = "uid @ ''.json''"
  have n: "norm_comps (path_join dir ?f) = norm_comps dir @ [?f]"
          "startswith (path_join dir ?f) ''/'' = startswith dir ''/''"
    using norm_comps_child [OF json_no_sep [OF assms], of dir] json_name [of uid] by simp_all
  have inside: "lies_inside dir (get_user_memory_path dir uid)"
    unfolding lies_inside_def get_user_memory_path_def Let_def n
    using json_name [of uid] by simp
  have "get_user_memory_path dir uid =
           (if dir = [] \<or> endswith dir ''/'' then dir else dir @ ''/'') @ uid @ ''.json''"
    using json_relative [OF assms] by (simp add: get_user_memory_path_def path_join_def)
  with inside show ?thesis by simp
qed

theorem memory_path_inside_witness:
  "CHR ''/'' \<notin> set ''test_user''
   \<and> get_user_memory_path memory_dir ''test_user'' = ''memory/test_user.json''
   \<and> lies_inside memory_dir (get_user_memory_path memory_dir ''test_user'')"
proof -
  have h: "CHR ''/'' \<notin> set ''test_user''" by simp
  have e: "\<not> endswith memory_dir ''/''" "memory_dir \<noteq> []"
    by (simp_all add: memory_dir_def endswith_def)
  note t = memory_path_inside [OF h, of memory_dir]
  have p: "get_user_memory_path memory_dir ''test_user'' = ''memory/test_user.json''"
    using t e by (simp add: memory_dir_def)
  have i: "lies_inside memory_dir (get_user_memory_path memory_dir ''test_user'')"
    using t by (rule conjunct2)
  from h p i show ?thesis by blast
qed

text \<open>
  The claim as stated fails: the user id \<open>../x\<close> gives a path outside the memory
  directory.
\<close>

theorem memory_path_escapes:
  "get_user_memory_path memory_dir ''../x'' = ''memory/../x.json''
   \<and> \<not> lies_inside memory_dir (get_user_memory_path memory_dir ''../x'')"
  by code_simp

lemma save_memory_no_results:
  "query_results c = [] \<Longrightarrow>
   save_memory w c =
     (add_error ''save_memory''
        (''Error saving memory: '' @
           (case load_memory w memory_dir (user_id c) of
              Inl e \<Rightarrow> e
            | Inr m \<Rightarrow> [CHR 0x27] @ ''success'' @ [CHR 0x27]))
        ''general'' c, w)"
  by (simp add: save_memory_def add_interaction_def dict_getitem_def split: sum.splits)

text \<open>
  C10. Saving with no results: when \<open>save_memory\<close> runs on a context whose
  \<open>query_results\<close> is still the empty dictionary, nothing is written (the world, and
  with it every history file, is unchanged) and one error tagged \<open>save_memory\<close> is
  appended to the context. Its text is that of the \<^verbatim>\<open>KeyError\<close> raised by
  \<^verbatim>\<open>results["success"]\<close> whenever the history document can be loaded.
\<close>

theorem save_memory_empty_results:
  assumes "query_results c = []"
  shows "save_memory w c =
           (add_error ''save_memory''
              (''Error saving memory: '' @
                 (case load_memory w memory_dir (user_id c) of
                    Inl e \<Rightarrow> e
                  | Inr m \<Rightarrow> [CHR 0x27] @ ''success'' @ [CHR 0x27]))
              ''general'' c, w)
         \<and> files (snd (save_memory w c)) = files w
         \<and> map agent (errors (fst (save_memory w c))) = map agent (errors c) @ [''save_memory'']"
  using assms
  by (simp add: save_memory_def add_interaction_def dict_getitem_def add_error_def
           split: sum.splits)

theorem save_memory_empty_results_witness:
  "query_results (new_context ''u1'' ''Q1'') = []
   \<and> save_memory quiet_world (new_context ''u1'' ''Q1'') =
       ((new_context ''u1'' ''Q1'')
          \<lparr>errors := [\<lparr>agent = ''save_memory'',
                        message = ''Error saving memory: '' @ [CHR 0x27] @ ''success'' @ [CHR 0x27],
                        error_type = ''general''\<rparr>]\<rparr>, quiet_world)
   \<and> files (snd (save_memory quiet_world (new_context ''u1'' ''Q1''))) ''memory/u1.json'' = Missing"
proof -
  have h: "query_results (new_context ''u1'' ''Q1'') = []"
    by (simp add: new_context_def)
  have l: "load_memory quiet_world memory_dir (user_id (new_context ''u1'' ''Q1''))
             = Inr (create_empty_memory quiet_world)"
    by (simp add: load_memory_def quiet_world_def)
  from save_memory_empty_results [OF h, of quiet_world] h l show ?thesis
    by (simp add: add_error_def new_context_def quiet_world_def)
qed

section \<open>Properties of the orchestrator\<close>

lemma no_backward_edge: "set all_edges \<subseteq> {(a, b). stages_left b < stages_left a}"
  by (simp add: all_edges_def edges_def conditional_edges_def)

lemma all_edges_acyclic: "(n, n) \<notin> (set all_edges)\<^sup>+"
proof
  assume "(n, n) \<in> (set all_edges)\<^sup>+"
  then have "(n, n) \<in> {(a, b). stages_left b < stages_left a}\<^sup>+"
    using no_backward_edge by (rule trancl_mono)
  moreover have "trans {(a, b). stages_left b < stages_left a}"
    by (auto simp: trans_def)
  ultimately have "(n, n) \<in> {(a, b). stages_left b < stages_left a}"
    by (simp only: trancl_id)
  then show False by simp
qed

lemma registered_targets_table:
  "registered_targets c Load_context = [Generate_sql]"
  "registered_targets c Generate_sql =
     (if has_errors c then [Execute_sql, Format_response] else [Execute_sql, Execute_sql])"
  "registered_targets c Execute_sql = [Format_response, Format_response]"
  "registered_targets c Format_response = [Save_memory]"
  "registered_targets c Save_memory = [END]"
  "registered_targets c END = []"
  by (simp_all add: registered_targets_def plain_targets_def conditional_target_def edges_def
        conditional_edges_def check_for_errors_def)

lemma generate_sql_fails:
  "generator w (question c) = Inl e \<Longrightarrow>
   generate_sql w c =
     (add_error ''generate_sql'' (''Error generating SQL: '' @ e) ''general'' c, w)"
  by (simp add: generate_sql_def)

lemma validate_empty: "\<not> validate_sql []"
  by code_simp

lemma execute_sql_rejected:
  "\<not> validate_sql (sql_query c) \<Longrightarrow>
   execute_sql w c =
     (c\<lparr>query_results :=
          [(''success'', PBool False), (''error'', PStr ''SQL query failed validation''),
           (''data'', PNone), (''columns'', PNone), (''row_count'', PInt 0)],
        is_query_validated := False,
        errors := errors c @
          [\<lparr>agent = ''execute_sql'',
            message = ''Query execution failed: SQL query failed validation'',
            error_type = ''database_error''\<rparr>]\<rparr>, w)"
  by (simp add: execute_sql_def executor_execute_sql_def failure_result_def dict_getitem_def
        add_error_def py_str_def)

text \<open>
  C1. The short-circuit after a failing \<open>generate_sql\<close> is not what the graph
  registers. When the generator raises, the context leaving \<open>generate_sql\<close> has errors,
  and the targets registered for \<open>generate_sql\<close> are then both \<open>execute_sql\<close> (its plain
  edge) and \<open>format_response\<close> (its conditional edge). Run on that context, whose query
  is empty, \<open>execute_sql\<close> has effects: it stores the validation failure in
  \<open>query_results\<close> and appends an entry tagged \<open>execute_sql\<close> after the one of
  \<open>generate_sql\<close>.
\<close>

theorem short_circuit_not_enforced:
  assumes "generator w (question c) = Inl e" and "sql_query c = []"
  shows "has_errors (fst (generate_sql w c))
    \<and> registered_targets (fst (generate_sql w c)) Generate_sql = [Execute_sql, Format_response]
    \<and> query_results (fst (execute_sql w (fst (generate_sql w c)))) =
        [(''success'', PBool False), (''error'', PStr ''SQL query failed validation''),
         (''data'', PNone), (''columns'', PNone), (''row_count'', PInt 0)]
    \<and> errors (fst (execute_sql w (fst (generate_sql w c)))) =
        errors c @
          [\<lparr>agent = ''generate_sql'', message = ''Error generating SQL: '' @ e,
            error_type = ''general''\<rparr>,
           \<lparr>agent = ''execute_sql'',
            message = ''Query execution failed: SQL query failed validation'',
            error_type = ''database_error''\<rparr>]"
proof -
  let ?c' = "add_error ''generate_sql'' (''Error generating SQL: '' @ e) ''general'' c"
  have g: "fst (generate_sql w c) = ?c'"
    using assms(1) by (simp add: generate_sql_fails)
  have h: "has_errors ?c'"
    by (simp add: has_errors_def add_error_def)
  have v: "\<not> validate_sql (sql_query ?c')"
    using assms(2) validate_empty by (simp add: add_error_def)
  note x = execute_sql_rejected [OF v, of w]
  have t: "registered_targets ?c' Generate_sql = [Execute_sql, Format_response]"
    using h by (simp add: registered_targets_table)
  have q: "query_results (fst (execute_sql w ?c')) =
        [(''success'', PBool False), (''error'', PStr ''SQL query failed validation''),
         (''data'', PNone), (''columns'', PNone), (''row_count'', PInt 0)]"
    unfolding x by simp
  have r: "errors (fst (execute_sql w ?c')) =
        errors c @
          [\<lparr>agent = ''generate_sql'', message = ''Error generating SQL: '' @ e,
            error_type = ''general''\<rparr>,
           \<lparr>agent = ''execute_sql'',
            message = ''Query execution failed: SQL query failed validation'',
            error_type = ''database_error''\<rparr>]"
    unfolding x by (simp add: add_error_def)
  from h t q r show ?thesis
    unfolding g by (intro conjI)
qed

theorem short_circuit_not_enforced_witness:
  "generator failing_generator_world (question (new_context ''u1'' ''Q1'')) = Inl ''Connection error.''
   \<and> sql_query (new_context ''u1'' ''Q1'') = []
   \<and> registered_targets (fst (generate_sql failing_generator_world (new_context ''u1'' ''Q1'')))
        Generate_sql = [Execute_sql, Format_response]
   \<and> errors (fst (execute_sql failing_generator_world
                (fst (generate_sql failing_generator_world (new_context ''u1'' ''Q1''))))) =
        [\<lparr>agent = ''generate_sql'', message = ''Error generating SQL: Connection error.'',
          error_type = ''general''\<rparr>,
         \<lparr>agent = ''execute_sql'',
          message = ''Query execution failed: SQL query failed validation'',
          error_type = ''database_error''\<rparr>]"
proof -
  have a: "generator failing_generator_world (question (new_context ''u1'' ''Q1''))
             = Inl ''Connection error.''"
    by (simp add: failing_generator_world_def new_context_def)
  have b: "sql_query (new_context ''u1'' ''Q1'') = []"
    by (simp add: new_context_def)
  from short_circuit_not_enforced [OF a b] a b show ?thesis
    by (simp add: new_context_def)
qed

text \<open>
  C4. The shape of the graph. No node reaches itself along the edges, plain or
  conditional; every edge leads to a later stage; \<open>END\<close> is entered from \<open>save_memory\<close>
  only. The targets registered for each node are listed: one for \<open>load_context\<close>,
  \<open>format_response\<close> and \<open>save_memory\<close>, \<open>format_response\<close> twice over for
  \<open>execute_sql\<close>, and for \<open>generate_sql\<close> two different ones, \<open>execute_sql\<close> and
  \<open>format_response\<close>, as soon as the context has errors: there the graph does not
  prescribe a single path.
\<close>

theorem graph_shape:
  "(\<forall>n. (n, n) \<notin> (set all_edges)\<^sup>+)
   \<and> list_all (\<lambda>(a, b). stages_left b < stages_left a) all_edges
   \<and> map fst (filter (\<lambda>(a, b). b = END) all_edges) = [Save_memory]
   \<and> registered_targets c Load_context = [Generate_sql]
   \<and> registered_targets c Generate_sql =
       (if has_errors c then [Execute_sql, Format_response] else [Execute_sql, Execute_sql])
   \<and> registered_targets c Execute_sql = [Format_response, Format_response]
   \<and> registered_targets c Format_response = [Save_memory]
   \<and> registered_targets c Save_memory = [END]"
proof -
  have order: "list_all (\<lambda>(a, b). stages_left b < stages_left a) all_edges"
    by (simp add: all_edges_def edges_def conditional_edges_def)
  have last_stage: "map fst (filter (\<lambda>(a, b). b = END) all_edges) = [Save_memory]"
    by (simp add: all_edges_def edges_def conditional_edges_def)
  have acyclic: "\<forall>n. (n, n) \<notin> (set all_edges)\<^sup>+"
    using all_edges_acyclic by simp
  from acyclic order last_stage show ?thesis
    by (simp add: registered_targets_table)
qed

theorem graph_shape_witness:
  "(Generate_sql, Generate_sql) \<notin> (set all_edges)\<^sup>+
   \<and> registered_targets
        (add_error ''generate_sql'' ''Error generating SQL: Connection error.'' ''general''
           (new_context ''u1'' ''Q1'')) Generate_sql = [Execute_sql, Format_response]
   \<and> registered_targets (new_context ''u1'' ''Q1'') Generate_sql = [Execute_sql, Execute_sql]"
  using graph_shape [of "add_error ''generate_sql'' ''Error generating SQL: Connection error.''
           ''general'' (new_context ''u1'' ''Q1'')"]
    graph_shape [of "new_context ''u1'' ''Q1''"]
  by (simp add: has_errors_def add_error_def new_context_def)

text \<open>
  C7. Error rendering by the stage: on a context with errors, \<open>format_response\<close> sets
  the response to the apology template followed by the message of the last error, and
  changes nothing else; no collaborator is called.
\<close>

theorem format_response_renders_error:
  assumes "has_errors c"
  shows "format_response w c =
           (c\<lparr>response := ''I'm sorry, but I encountered an error: '' @ message (last (errors c))\<rparr>,
            w)"
  using assms by (simp add: format_response_def has_errors_def get_last_error_def)

theorem format_response_renders_error_witness:
  "has_errors (add_error ''generate_sql'' ''Error generating SQL: Connection error.'' ''general''
                 (new_context ''u1'' ''Q1''))
   \<and> response (fst (format_response failing_generator_world
        (add_error ''generate_sql'' ''Error generating SQL: Connection error.'' ''general''
           (new_context ''u1'' ''Q1''))))
       = ''I'm sorry, but I encountered an error: Error generating SQL: Connection error.''"
proof -
  have h: "has_errors (add_error ''generate_sql'' ''Error generating SQL: Connection error.''
                 ''general'' (new_context ''u1'' ''Q1''))"
    by (simp add: has_errors_def add_error_def)
  from format_response_renders_error [OF h, of failing_generator_world] h show ?thesis
    by (simp add: add_error_def)
qed

lemma load_context_fails:
  "get_recent_interactions w memory_dir (user_id c) 5 = Inl e \<Longrightarrow>
   load_context w c =
     (add_error ''load_context'' (''Error loading context: '' @ e) ''general'' c, w)"
  by (simp add: load_context_def)

text \<open>
  C8. A failing history read, followed by a generator that answers: \<open>load_context\<close>
  leaves the history as it was and appends its error, \<open>generate_sql\<close> stores the
  generated query and appends nothing. \<open>check_for_errors\<close> still answers \<open>error\<close>,
  since it looks at the whole error list, so the conditional edge of \<open>generate_sql\<close>
  selects \<open>format_response\<close>, the branch that skips execution, next to the plain edge
  to \<open>execute_sql\<close>.
\<close>

theorem load_error_selects_error_branch:
  assumes "get_recent_interactions w memory_dir (user_id c) 5 = Inl e"
    and "generator w (question c) = Inr sql"
    and "errors c = []"
  shows "sql_query (fst (generate_sql w (fst (load_context w c)))) = sql
    \<and> conversation_history (fst (generate_sql w (fst (load_context w c)))) = conversation_history c
    \<and> errors (fst (generate_sql w (fst (load_context w c)))) =
        [\<lparr>agent = ''load_context'', message = ''Error loading context: '' @ e,
          error_type = ''general''\<rparr>]
    \<and> check_for_errors (fst (generate_sql w (fst (load_context w c)))) = ''error''
    \<and> conditional_target (fst (generate_sql w (fst (load_context w c)))) Generate_sql
        = Some Format_response
    \<and> registered_targets (fst (generate_sql w (fst (load_context w c)))) Generate_sql
        = [Execute_sql, Format_response]"
proof -
  let ?c1 = "add_error ''load_context'' (''Error loading context: '' @ e) ''general'' c"
  have l: "fst (load_context w c) = ?c1"
    using assms(1) by (simp add: load_context_fails)
  have g: "fst (generate_sql w ?c1) = ?c1\<lparr>sql_query := sql\<rparr>"
    using assms(2) by (simp add: generate_sql_def add_error_def)
  have h: "has_errors (?c1\<lparr>sql_query := sql\<rparr>)"
    by (simp add: has_errors_def add_error_def)
  show ?thesis
    unfolding l g using h assms(3)
    by (simp add: registered_targets_table check_for_errors_def conditional_target_def
          conditional_edges_def add_error_def)
qed

lemma unreadable_history_load:
  "get_recent_interactions unreadable_history_world memory_dir
     (user_id (new_context ''u1'' ''Q1'')) 5 = Inl ''Permission denied''"
  by (simp add: get_recent_interactions_def load_memory_def unreadable_history_world_def
        quiet_world_def)

theorem load_error_selects_error_branch_witness:
  "get_recent_interactions unreadable_history_world memory_dir
     (user_id (new_context ''u1'' ''Q1'')) 5 = Inl ''Permission denied''
   \<and> generator unreadable_history_world (question (new_context ''u1'' ''Q1''))
       = Inr ''SELECT nome FROM clientes''
   \<and> errors (new_context ''u1'' ''Q1'') = []
   \<and> sql_query (fst (generate_sql unreadable_history_world
                  (fst (load_context unreadable_history_world (new_context ''u1'' ''Q1'')))))
       = ''SELECT nome FROM clientes''
   \<and> conditional_target (fst (generate_sql unreadable_history_world
                  (fst (load_context unreadable_history_world (new_context ''u1'' ''Q1'')))))
        Generate_sql = Some Format_response"
proof -
  have b: "generator unreadable_history_world (question (new_context ''u1'' ''Q1''))
       = Inr ''SELECT nome FROM clientes''"
    by (simp add: unreadable_history_world_def quiet_world_def)
  have c: "errors (new_context ''u1'' ''Q1'') = []"
    by (simp add: new_context_def)
  from load_error_selects_error_branch [OF unreadable_history_load b c] unreadable_history_load b c
  show ?thesis by simp
qed

end
